theory Spec2Isabelle
  imports Main "HOL-Library.AList" "HOL-Library.Option_ord" "HOL-Library.Product_Lexorder" "HOL-Library.Multiset"
begin

section \<open>Python values\<close>

text \<open>
  The client handles decoded JSON documents. A document is \<open>None\<close>, a boolean, an
  integer, a string, a list or a dict; a dict keeps its insertion order and its keys are
  distinct, so it is an association list (keys are read with \<open>map_of\<close>, written with \<open>AList.update\<close>, which
  replaces in place or appends, as a Python dict does). Floating-point numbers are not
  modelled. Strings are lists of 8-bit characters; case conversion and whitespace are
  those of ASCII.
\<close>

datatype json =
    JNull
  | JBool bool
  | JInt int
  | JStr string
  | JList "json list"
  | JDict "(string \<times> json) list"

type_synonym dict = "(string \<times> json) list"

text \<open>
  The exceptions the code can raise. \<open>ValueError\<close> carries the message of the
  \<open>raise\<close> statement; \<open>NameError\<close> is the read of a local variable that was
  never assigned (Python's \<open>UnboundLocalError\<close>); \<open>RequestError\<close> is any exception
  of \<open>requests.get\<close>; \<open>JSONDecodeError\<close> is \<open>response.json()\<close> on a body that is
  not JSON.
\<close>

datatype error =
    ValueError string
  | KeyError string
  | TypeError
  | AttributeError
  | NameError string
  | IndexError
  | RequestError
  | JSONDecodeError

subsection \<open>Strings\<close>

definition lower_char :: "char \<Rightarrow> char" where
  "lower_char c =
     (case map_of (zip ''ABCDEFGHIJKLMNOPQRSTUVWXYZ'' ''abcdefghijklmnopqrstuvwxyz'') c of
        Some d \<Rightarrow> d
      | None \<Rightarrow> c)"

definition py_lower :: "string \<Rightarrow> string" where
  "py_lower s = map lower_char s"

definition is_space :: "char \<Rightarrow> bool" where
  "is_space c \<longleftrightarrow>
     c \<in> set [CHR 0x20, CHR 0x09, CHR 0x0A, CHR 0x0B, CHR 0x0C, CHR 0x0D,
               CHR 0x1C, CHR 0x1D, CHR 0x1E, CHR 0x1F]"

definition py_strip :: "string \<Rightarrow> string" where
  "py_strip s = rev (dropWhile is_space (rev (dropWhile is_space s)))"

fun starts_with :: "string \<Rightarrow> string \<Rightarrow> bool" where
  "starts_with s [] = True"
| "starts_with [] (c # cs) = False"
| "starts_with (d # ds) (c # cs) = (d = c \<and> starts_with ds cs)"

text \<open>\<open>py_in sub s\<close> is Python's \<open>sub in s\<close> on two strings.\<close>

fun py_in :: "string \<Rightarrow> string \<Rightarrow> bool" where
  "py_in sub [] = (sub = [])"
| "py_in sub (d # ds) = (starts_with (d # ds) sub \<or> py_in sub ds)"

text \<open>\<open>sep.join(xs)\<close>.\<close>

fun py_join :: "string \<Rightarrow> string list \<Rightarrow> string" where
  "py_join sep [] = []"
| "py_join sep [x] = x"
| "py_join sep (x # y # ys) = x @ sep @ py_join sep (y # ys)"

subsection \<open>Integers and their decimal text\<close>

definition digit_char :: "nat \<Rightarrow> char" where
  "digit_char k = ''0123456789'' ! (k mod 10)"

fun digits_of :: "nat \<Rightarrow> string" where
  "digits_of n = (if n < 10 then [digit_char n] else digits_of (n div 10) @ [digit_char (n mod 10)])"

declare digits_of.simps [simp del]

text \<open>\<open>str(i)\<close> on an integer.\<close>

definition py_str_int :: "int \<Rightarrow> string" where
  "py_str_int i = (if i < 0 then CHR ''-'' # digits_of (nat (- i)) else digits_of (nat i))"

definition digit_value :: "char \<Rightarrow> nat option" where
  "digit_value c = map_of (zip ''0123456789'' [0, 1, 2, 3, 4, 5, 6, 7, 8, 9]) c"

text \<open>
  The digits of an integer literal as \<open>int()\<close> reads them: at least one digit, and
  single underscores only between two digits. The flag says whether the character before
  was a digit.
\<close>

fun parse_digits :: "nat \<Rightarrow> bool \<Rightarrow> string \<Rightarrow> nat option" where
  "parse_digits acc after_digit [] = (if after_digit then Some acc else None)"
| "parse_digits acc after_digit (c # cs) =
     (case digit_value c of
        Some d \<Rightarrow> parse_digits (10 * acc + d) True cs
      | None \<Rightarrow> if c = CHR ''_'' \<and> after_digit then parse_digits acc False cs else None)"

text \<open>\<open>int(s)\<close> on a string: surrounding whitespace, an optional sign, the digits.\<close>

definition int_of_string :: "string \<Rightarrow> error + int" where
  "int_of_string s =
     (let bad = Inl (ValueError ''invalid literal for int() with base 10'') in
      case py_strip s of
        [] \<Rightarrow> bad
      | c # cs \<Rightarrow>
          if c = CHR ''-'' then (case parse_digits 0 False cs of None \<Rightarrow> bad | Some n \<Rightarrow> Inr (- int n))
          else if c = CHR ''+'' then (case parse_digits 0 False cs of None \<Rightarrow> bad | Some n \<Rightarrow> Inr (int n))
          else (case parse_digits 0 False (c # cs) of None \<Rightarrow> bad | Some n \<Rightarrow> Inr (int n)))"

text \<open>\<open>int(v)\<close> on a decoded JSON value.\<close>

fun py_int :: "json \<Rightarrow> error + int" where
  "py_int (JInt i) = Inr i"
| "py_int (JBool b) = Inr (if b then 1 else 0)"
| "py_int (JStr s) = int_of_string s"
| "py_int v = Inl TypeError"

subsection \<open>Truth values, subscripts, iteration\<close>

text \<open>An optional list argument is true in a condition when it is a non-empty list.\<close>

fun truthy_list :: "'a list option \<Rightarrow> bool" where
  "truthy_list None = False"
| "truthy_list (Some xs) = (xs \<noteq> [])"

fun truthy_str :: "string option \<Rightarrow> bool" where
  "truthy_str None = False"
| "truthy_str (Some s) = (s \<noteq> [])"

text \<open>\<open>v[key]\<close> with a string key: only a dict has string subscripts.\<close>

fun subscript :: "json \<Rightarrow> string \<Rightarrow> error + json" where
  "subscript (JDict kvs) k = (case map_of kvs k of Some v \<Rightarrow> Inr v | None \<Rightarrow> Inl (KeyError k))"
| "subscript v k = Inl TypeError"

text \<open>
  What a \<open>for\<close> loop, \<open>list.extend\<close> and \<open>len\<close> see of a value: the elements of a
  list, the keys of a dict, the characters of a string; nothing else can be iterated.
\<close>

fun py_iter :: "json \<Rightarrow> error + json list" where
  "py_iter (JList xs) = Inr xs"
| "py_iter (JDict kvs) = Inr (map (\<lambda>kv. JStr (fst kv)) kvs)"
| "py_iter (JStr s) = Inr (map (\<lambda>c. JStr [c]) s)"
| "py_iter v = Inl TypeError"

subsection \<open>Comparisons\<close>

text \<open>
  \<open>==\<close> on decoded JSON values: a boolean is the integer 0 or 1, two lists are equal
  when they are equal item by item, two dicts when they have the same keys with equal
  values (the keys of a dict are distinct), and values of different kinds are not equal.
\<close>

fun json_eq :: "json \<Rightarrow> json \<Rightarrow> bool"
  and list_eq :: "json list \<Rightarrow> json list \<Rightarrow> bool"
  and dict_within :: "dict \<Rightarrow> dict \<Rightarrow> bool" where
  "json_eq JNull JNull = True"
| "json_eq (JBool a) (JBool b) = (a = b)"
| "json_eq (JBool a) (JInt j) = ((if a then 1 else 0) = j)"
| "json_eq (JInt i) (JBool b) = (i = (if b then 1 else 0))"
| "json_eq (JInt i) (JInt j) = (i = j)"
| "json_eq (JStr s) (JStr t) = (s = t)"
| "json_eq (JList xs) (JList ys) = list_eq xs ys"
| "json_eq (JDict a) (JDict b) = (length a = length b \<and> dict_within a b)"
| "json_eq v v' = False"
| "list_eq [] [] = True"
| "list_eq (x # xs) (y # ys) = (json_eq x y \<and> list_eq xs ys)"
| "list_eq xs ys = False"
| "dict_within [] b = True"
| "dict_within (kv # rest) b =
     ((case map_of b (fst kv) of None \<Rightarrow> False | Some v' \<Rightarrow> json_eq (snd kv) v') \<and> dict_within rest b)"

text \<open>
  \<open><\<close> on strings compares the first characters that differ, by their code; a proper
  prefix is smaller.
\<close>

fun str_lt :: "string \<Rightarrow> string \<Rightarrow> bool" where
  "str_lt [] [] = False"
| "str_lt [] (d # ds) = True"
| "str_lt (c # cs) [] = False"
| "str_lt (c # cs) (d # ds) = (if c = d then str_lt cs ds else (of_char c :: nat) < of_char d)"

text \<open>
  \<open><\<close> on decoded JSON values: numbers are ordered among themselves, strings among
  themselves, lists by the first pair of items that are not equal (a proper prefix is
  smaller); every other pair of values raises \<open>TypeError\<close>, also \<open>None < None\<close> and
  one dict against another.
\<close>

fun json_lt :: "json \<Rightarrow> json \<Rightarrow> error + bool"
  and list_lt :: "json list \<Rightarrow> json list \<Rightarrow> error + bool" where
  "json_lt (JBool a) (JBool b) = Inr (\<not> a \<and> b)"
| "json_lt (JBool a) (JInt j) = Inr ((if a then 1 else 0) < j)"
| "json_lt (JInt i) (JBool b) = Inr (i < (if b then 1 else 0))"
| "json_lt (JInt i) (JInt j) = Inr (i < j)"
| "json_lt (JStr s) (JStr t) = Inr (str_lt s t)"
| "json_lt (JList xs) (JList ys) = list_lt xs ys"
| "json_lt v v' = Inl TypeError"
| "list_lt [] [] = Inr False"
| "list_lt [] (y # ys) = Inr True"
| "list_lt (x # xs) [] = Inr False"
| "list_lt (x # xs) (y # ys) = (if json_eq x y then list_lt xs ys else json_lt x y)"

section \<open>utils.py\<close>

text \<open>\<open>join_with_operator\<close>: the operator is checked, then put between the terms.\<close>

definition join_with_operator :: "string list \<Rightarrow> string \<Rightarrow> error + string" where
  "join_with_operator search_terms operator =
     (if operator \<notin> set [''AND'', ''OR''] then Inl (ValueError ''Operator must be 'AND' or 'OR'.'')
      else Inr (py_join ('' '' @ operator @ '' '') search_terms))"

text \<open>
  \<open>load_api_credentials\<close> reads two environment variables; the environment is a
  parameter. The key may be absent, the token defaults to the empty string.
\<close>

type_synonym environ = "string \<rightharpoonup> string"

definition load_api_credentials :: "environ \<Rightarrow> string option \<times> string" where
  "load_api_credentials env =
     (env ''ELSEVIER_API_KEY'',
      case env ''ELSEVIER_INST_TOKEN'' of None \<Rightarrow> [] | Some t \<Rightarrow> t)"

type_synonym headers = "(string \<times> string option) list"

definition write_headers :: "string option \<Rightarrow> string \<Rightarrow> string \<Rightarrow> headers" where
  "write_headers api_key inst_token accept =
     (let headers = [(''X-ELS-APIKey'', api_key), (''Accept'', Some accept)] in
      if inst_token \<noteq> [] then AList.update ''X-ELS-Insttoken'' (Some inst_token) headers
      else headers)"

section \<open>The query builder\<close>

text \<open>
  The parameter dict of \<open>write_query\<close> has fixed keys, so it is a record. \<open>start\<close> is
  the integer 0 at first and a string once the pagination loop has stored
  \<open>str(next_start)\<close> in it; \<open>date\<close> is absent unless a date range was given.
\<close>

record params =
  start :: json
  count :: int
  field :: string
  date :: "string option"
  query :: string

text \<open>
  \<open>write_query\<close>. The filter lists hold strings, as the docstrings say (on a string
  \<open>str(id)\<close> and the f-string substitution are the identity). Each \<open>if\<close> appends one
  clause to \<open>query_list\<close>; the operators passed to \<open>join_with_operator\<close> are the
  literals of the source, and its error, were there one, is passed on.
\<close>

definition keyword_clause :: "string list \<Rightarrow> error + string" where
  "keyword_clause keywords =
     (case join_with_operator (map (\<lambda>keyword. [CHR 0x27] @ keyword @ [CHR 0x27]) keywords) ''AND'' of
        Inl e \<Rightarrow> Inl e
      | Inr joined \<Rightarrow> Inr (''TITLE('' @ joined @ '')''))"

definition subject_clause :: "string list \<Rightarrow> error + string" where
  "subject_clause subjs =
     (case join_with_operator subjs ''OR'' of
        Inl e \<Rightarrow> Inl e
      | Inr joined \<Rightarrow> Inr (''SUBJAREA('' @ joined @ '')''))"

definition author_id_clause :: "string list \<Rightarrow> error + string" where
  "author_id_clause author_ids =
     join_with_operator (map (\<lambda>id. ''AU-ID('' @ id @ '')'') author_ids) ''OR''"

definition author_clause :: "string list \<Rightarrow> error + string" where
  "author_clause authors =
     (case join_with_operator authors ''OR'' of
        Inl e \<Rightarrow> Inl e
      | Inr joined \<Rightarrow> Inr (''AUTHOR-NAME('' @ joined @ '')''))"

text \<open>One \<open>if\<close> of \<open>write_query\<close>: an absent or empty filter leaves the list as it is.\<close>

definition append_clause ::
  "string list option \<Rightarrow> (string list \<Rightarrow> error + string) \<Rightarrow> string list \<Rightarrow> error + string list" where
  "append_clause arg clause query_list =
     (case arg of
        None \<Rightarrow> Inr query_list
      | Some xs \<Rightarrow>
          if truthy_list (Some xs) then
            (case clause xs of Inl e \<Rightarrow> Inl e | Inr c \<Rightarrow> Inr (query_list @ [c]))
          else Inr query_list)"

definition write_query ::
  "string list option \<Rightarrow> string list option \<Rightarrow> string list option \<Rightarrow> string list option \<Rightarrow>
   string option \<Rightarrow> error + params" where
  "write_query keywords subjs author_ids authors date_range =
     (let params = \<lparr>start = JInt 0, count = 50,
                     field = ''prism:doi,dc:title,prism:publicationName,prism:coverDate,dc:creator'',
                     date = (if truthy_str date_range then date_range else None),
                     query = []\<rparr>
      in
      case append_clause keywords keyword_clause [] of Inl e \<Rightarrow> Inl e | Inr q1 \<Rightarrow>
      case append_clause subjs subject_clause q1 of Inl e \<Rightarrow> Inl e | Inr q2 \<Rightarrow>
      case append_clause author_ids author_id_clause q2 of Inl e \<Rightarrow> Inl e | Inr q3 \<Rightarrow>
      case append_clause authors author_clause q3 of Inl e \<Rightarrow> Inl e | Inr query_list \<Rightarrow>
      case join_with_operator query_list ''AND'' of Inl e \<Rightarrow> Inl e | Inr q \<Rightarrow>
      if q = [] then Inl (ValueError ''Query parameter cannot be empty.'')
      else Inr (params\<lparr>query := q\<rparr>))"

text \<open>
  The query string as the specification words it, to be compared with the one
  \<open>write_query\<close> builds: one clause for each filter category that is given and not
  empty, in the order keywords, subjects, author identifiers, author names, the clauses
  joined by \<open>AND\<close>.
\<close>

definition given :: "string list option \<Rightarrow> string list" where
  "given arg = (case arg of None \<Rightarrow> [] | Some xs \<Rightarrow> xs)"

definition spec_clauses ::
  "string list option \<Rightarrow> string list option \<Rightarrow> string list option \<Rightarrow> string list option \<Rightarrow>
   string list" where
  "spec_clauses keywords subjs author_ids authors =
     (if given keywords = [] then []
      else [''TITLE('' @ py_join '' AND '' (map (\<lambda>k. [CHR 0x27] @ k @ [CHR 0x27]) (given keywords)) @ '')''])
     @ (if given subjs = [] then []
        else [''SUBJAREA('' @ py_join '' OR '' (given subjs) @ '')''])
     @ (if given author_ids = [] then []
        else [py_join '' OR '' (map (\<lambda>i. ''AU-ID('' @ i @ '')'') (given author_ids))])
     @ (if given authors = [] then []
        else [''AUTHOR-NAME('' @ py_join '' OR '' (given authors) @ '')''])"

definition spec_query ::
  "string list option \<Rightarrow> string list option \<Rightarrow> string list option \<Rightarrow> string list option \<Rightarrow> string" where
  "spec_query keywords subjs author_ids authors =
     py_join '' AND '' (spec_clauses keywords subjs author_ids authors)"

section \<open>The HTTP fetcher\<close>

text \<open>
  What \<open>requests.get\<close> is called with, and what the code reads of its answer: the
  status code (never read by the client), the \<open>content-type\<close> header (absent or a
  string), the body as \<open>response.json()\<close> decodes it (\<open>None\<close> when the body is not
  JSON) and the raw bytes.

  A URL is a string. The one URL built by substituting a value into an f-string keeps
  that value unevaluated when it is a list or a dict, whose printed form is not modelled.
\<close>

datatype url = Url string | UrlOf string json

record response =
  status_code :: int
  content_type :: "string option"
  json_body :: "json option"
  content :: string

record request =
  req_url :: url
  req_headers :: headers
  req_params :: "params option"

text \<open>
  The network is a parameter: the answer to each request, or the exception
  \<open>requests.get\<close> raises. Every function that issues requests takes the list of the
  requests issued so far and returns it extended.
\<close>

type_synonym world = "request \<Rightarrow> error + response"

text \<open>What \<open>fetch_data\<close> returns: the response object, a decoded document, or \<open>None\<close>.\<close>

datatype fetched = Raw response | Parsed json | Nothing

text \<open>\<open>response.headers.get ('content-type', '')\<close>.\<close>

definition declared_type :: "response \<Rightarrow> string" where
  "declared_type response = (case content_type response of None \<Rightarrow> [] | Some c \<Rightarrow> c)"

definition fetch_data ::
  "world \<Rightarrow> url \<Rightarrow> headers \<Rightarrow> params option \<Rightarrow> request list \<Rightarrow> (error + fetched) \<times> request list" where
  "fetch_data w u headers ps log =
     (let req = \<lparr>req_url = u, req_headers = headers, req_params = ps\<rparr> in
      (case w req of
         Inl e \<Rightarrow> Inl e
       | Inr response \<Rightarrow>
           (let ct = declared_type response in
            if py_in ''image'' ct \<or> py_in ''pdf'' ct then Inr (Raw response)
            else if py_in ''json'' ct then
              (case json_body response of None \<Rightarrow> Inl JSONDecodeError | Some j \<Rightarrow> Inr (Parsed j))
            else if py_in ''xml'' ct then
              Inl (ValueError ''Output is in XML. Specify 'application/json' in headers.'')
            else Inr Nothing),
       log @ [req]))"

section \<open>The search orchestrator\<close>

text \<open>\<open>d.get(k)\<close>: the value, or \<open>None\<close>.\<close>

definition dict_get :: "dict \<Rightarrow> string \<Rightarrow> json" where
  "dict_get kvs k = (case map_of kvs k of None \<Rightarrow> JNull | Some v \<Rightarrow> v)"

text \<open>A subscript on what \<open>fetch_data\<close> returned: only a decoded document may have one.\<close>

fun fetched_subscript :: "fetched \<Rightarrow> string \<Rightarrow> error + json" where
  "fetched_subscript (Parsed j) k = subscript j k"
| "fetched_subscript r k = Inl TypeError"

text \<open>
  \<open>iterate_search_info\<close>: every exception inside the \<open>try\<close> is caught by the bare
  \<open>except\<close>, after which the function falls off its end and returns \<open>None\<close>.
  \<open>.get\<close> exists on a dict only.
\<close>

definition iterate_search_info :: "fetched \<Rightarrow> (json \<times> int \<times> int \<times> int) option" where
  "iterate_search_info data =
     (case fetched_subscript data ''search-results'' of
        Inl e \<Rightarrow> None
      | Inr (JDict search_results) \<Rightarrow>
          (let entries = dict_get search_results ''entry'' in
           case py_int (dict_get search_results ''opensearch:totalResults'') of Inl e \<Rightarrow> None | Inr total_n \<Rightarrow>
           case py_int (dict_get search_results ''opensearch:startIndex'') of Inl e \<Rightarrow> None | Inr start_n \<Rightarrow>
           case py_int (dict_get search_results ''opensearch:itemsPerPage'') of Inl e \<Rightarrow> None | Inr per_page \<Rightarrow>
           Some (entries, total_n, start_n, per_page))
      | Inr other \<Rightarrow> None)"

text \<open>
  The \<open>while True\<close> loop of \<open>search_database\<close>. It may run forever (a provider that
  keeps answering with empty pages), so it is a partial function: \<open>None\<close> is the loop
  that never returns. The result is the exception or the accumulated entries, with the
  requests issued. Unpacking the \<open>None\<close> of \<open>iterate_search_info\<close> is a
  \<open>TypeError\<close>; \<open>total_n\<close> and \<open>start_n\<close> are the source's \<open>total\<close> and
  \<open>start\<close>; \<open>max_results\<close> caps only when it is neither \<open>None\<close> nor 0. The
  five-second pause between two pages is not modelled.
\<close>

partial_function (option) search_loop ::
  "world \<Rightarrow> url \<Rightarrow> headers \<Rightarrow> int option \<Rightarrow> params \<Rightarrow> json list \<Rightarrow> request list \<Rightarrow>
   ((error + json list) \<times> request list) option" where
  "search_loop w search_url headers max_results ps all_entries log =
     (case fetch_data w search_url headers (Some ps) log of
        (Inl e, log') \<Rightarrow> Some (Inl e, log')
      | (Inr my_request, log') \<Rightarrow>
          (case iterate_search_info my_request of
             None \<Rightarrow> Some (Inl TypeError, log')
           | Some (entries, total_n, start_n, per_page) \<Rightarrow>
               (case py_iter entries of
                  Inl e \<Rightarrow> Some (Inl e, log')
                | Inr es \<Rightarrow>
                    (let all_entries' = all_entries @ es;
                         next_start = start_n + int (length es)
                     in
                     if next_start \<ge> total_n then Some (Inr all_entries', log')
                     else if (case max_results of None \<Rightarrow> False
                              | Some m \<Rightarrow> m \<noteq> 0 \<and> int (length all_entries') \<ge> m)
                       then Some (Inr all_entries', log')
                     else search_loop w search_url headers max_results
                            (ps\<lparr>start := JStr (py_str_int next_start)\<rparr>) all_entries' log'))))"

text \<open>
  \<open>search_database\<close>. \<open>search_url\<close> is assigned only for the three known database
  names; reading it otherwise is a \<open>NameError\<close>, and the \<open>and\<close> of the two checks
  reads it only when the filter is non-empty. The files written after the loop are not
  modelled and do not change the returned list; what is kept of the CSV block is what it
  raises: the header row is read from \<open>all_entries[0].keys()\<close> and the rows from
  \<open>entry.values()\<close>, which only a dict has.
\<close>

fun is_dict :: "json \<Rightarrow> bool" where
  "is_dict (JDict kvs) = True"
| "is_dict v = False"

definition write_csv :: "json list \<Rightarrow> error option" where
  "write_csv all_entries =
     (case all_entries of
        [] \<Rightarrow> Some IndexError
      | first # rest \<Rightarrow> if list_all is_dict (first # rest) then None else Some AttributeError)"

definition finish_search ::
  "bool \<Rightarrow> (error + json list) \<times> request list \<Rightarrow> (error + json list) \<times> request list" where
  "finish_search save_to_csv outcome =
     (case outcome of
        (Inl e, log) \<Rightarrow> (Inl e, log)
      | (Inr all_entries, log) \<Rightarrow>
          if save_to_csv then
            (case write_csv all_entries of
               Some e \<Rightarrow> (Inl e, log)
             | None \<Rightarrow> (Inr all_entries, log))
          else (Inr all_entries, log))"

definition select_url :: "string \<Rightarrow> string option" where
  "select_url database_name =
     (if database_name = ''scopus'' then Some ''https://api.elsevier.com/content/search/scopus''
      else if database_name = ''sciencedirect'' \<or> database_name = ''scidir''
        then Some ''https://api.elsevier.com/content/search/sciencedirect''
      else None)"

text \<open>One of the two checks \<open>if arg and "sciencedirect" in search_url: raise ValueError (msg)\<close>.\<close>

definition check_filter :: "string list option \<Rightarrow> string option \<Rightarrow> string \<Rightarrow> error option" where
  "check_filter arg search_url msg =
     (if truthy_list arg then
        (case search_url of
           None \<Rightarrow> Some (NameError ''search_url'')
         | Some u \<Rightarrow> if py_in ''sciencedirect'' u then Some (ValueError msg) else None)
      else None)"

definition search_database ::
  "environ \<Rightarrow> world \<Rightarrow> string list option \<Rightarrow> string option \<Rightarrow> string list option \<Rightarrow>
   string list option \<Rightarrow> string list option \<Rightarrow> string \<Rightarrow> int option \<Rightarrow> bool \<Rightarrow>
   ((error + json list) \<times> request list) option" where
  "search_database env w keywords date_range authors subjs author_ids database_name0 max_results
     save_to_csv =
     (case load_api_credentials env of (api_key, inst_token) \<Rightarrow>
      let database_name = py_strip (py_lower database_name0);
          search_url = select_url database_name
      in
      case check_filter author_ids search_url
             ''SciDir does not accept subject or author ID. Provide author name or use Scopus.'' of
        Some e \<Rightarrow> Some (Inl e, [])
      | None \<Rightarrow>
      case check_filter subjs search_url
             ''SciDir does not accept the subject query parameter. Use Scopus.'' of
        Some e \<Rightarrow> Some (Inl e, [])
      | None \<Rightarrow>
        (let headers = write_headers api_key inst_token ''application/json'' in
         case write_query keywords subjs author_ids authors date_range of
           Inl e \<Rightarrow> Some (Inl e, [])
         | Inr ps \<Rightarrow>
             (case search_url of
                None \<Rightarrow> Some (Inl (NameError ''search_url''), [])
              | Some u \<Rightarrow>
                  map_option (finish_search save_to_csv)
                    (search_loop w (Url u) headers max_results ps [] []))))"

section \<open>The metrics enricher\<close>

text \<open>
  \<open>extract_count\<close>: the outer loop looks for the category whose name is \<open>kind\<close>, the
  inner loop for the first count type whose lower-cased name contains \<open>citation_type\<close>,
  and returns its total. The inner loop gives \<open>Some\<close> of the returned value, or \<open>None\<close>
  when it ends without returning, after which the outer loop goes on. A missing key, a
  subscript on something that is not a dict, \<open>.lower()\<close> on something that is not a
  string are raised.
\<close>

fun scan_types :: "string \<Rightarrow> json list \<Rightarrow> error + json option" where
  "scan_types citation_type [] = Inr None"
| "scan_types citation_type (t # ts) =
     (case subscript t ''name'' of
        Inl e \<Rightarrow> Inl e
      | Inr (JStr n) \<Rightarrow>
          if py_in citation_type (py_lower n) then
            (case subscript t ''total'' of Inl e \<Rightarrow> Inl e | Inr v \<Rightarrow> Inr (Some v))
          else scan_types citation_type ts
      | Inr other \<Rightarrow> Inl AttributeError)"

fun scan_categories :: "string \<Rightarrow> string \<Rightarrow> json list \<Rightarrow> error + json" where
  "scan_categories citation_type kind [] = Inr (JInt 0)"
| "scan_categories citation_type kind (c # cs) =
     (case subscript c ''name'' of
        Inl e \<Rightarrow> Inl e
      | Inr n \<Rightarrow>
          if n = JStr kind then
            (case subscript c ''count_types'' of
               Inl e \<Rightarrow> Inl e
             | Inr types \<Rightarrow>
                 (case py_iter types of
                    Inl e \<Rightarrow> Inl e
                  | Inr ts \<Rightarrow>
                      (case scan_types citation_type ts of
                         Inl e \<Rightarrow> Inl e
                       | Inr (Some v) \<Rightarrow> Inr v
                       | Inr None \<Rightarrow> scan_categories citation_type kind cs)))
          else scan_categories citation_type kind cs)"

definition extract_count :: "json \<Rightarrow> string \<Rightarrow> string \<Rightarrow> error + json" where
  "extract_count categories citation_type kind =
     (case py_iter categories of
        Inl e \<Rightarrow> Inl e
      | Inr cs \<Rightarrow> scan_categories citation_type kind cs)"

text \<open>
  \<open>access_citation_counts\<close>. Both \<open>except\<close> branches return the same dict of
  \<open>None\<close> counts (they differ in what they print); the dict returned has the keys in the
  order the source writes them.
\<close>

definition no_counts :: "string \<Rightarrow> dict" where
  "no_counts citation_type =
     (if citation_type = ''both'' then [(''news'', JNull), (''policy'', JNull)]
      else [(citation_type, JNull)])"

definition access_citation_counts :: "fetched \<Rightarrow> string \<Rightarrow> error + dict" where
  "access_citation_counts plumx_response citation_type0 =
     (let citation_type = py_strip (py_lower citation_type0) in
      case fetched_subscript plumx_response ''count_categories'' of
        Inl e \<Rightarrow>
          (case fetched_subscript plumx_response ''id_value'' of
             Inr v \<Rightarrow> Inr (no_counts citation_type)
           | Inl e' \<Rightarrow> Inr (no_counts citation_type))
      | Inr categories \<Rightarrow>
          if citation_type = ''both'' then
            (case extract_count categories ''news'' ''mention'' of
               Inl e \<Rightarrow> Inl e
             | Inr news_count \<Rightarrow>
                 (case extract_count categories ''policy'' ''citation'' of
                    Inl e \<Rightarrow> Inl e
                  | Inr policy_count \<Rightarrow> Inr [(''news'', news_count), (''policy'', policy_count)]))
          else if citation_type = ''news'' then
            (case extract_count categories citation_type ''mention'' of
               Inl e \<Rightarrow> Inl e
             | Inr n \<Rightarrow> Inr [(citation_type, n)])
          else if citation_type = ''policy'' then
            (case extract_count categories citation_type ''citation'' of
               Inl e \<Rightarrow> Inl e
             | Inr n \<Rightarrow> Inr [(citation_type, n)])
          else Inl (ValueError ''Citation type must be 'news', 'policy', or 'both'.''))"

text \<open>
  The text an f-string substitutes for a value: a string as it is, an integer in
  decimal, \<open>None\<close>, \<open>True\<close>, \<open>False\<close>.
\<close>

fun format_url :: "string \<Rightarrow> json \<Rightarrow> url" where
  "format_url prefix (JStr s) = Url (prefix @ s)"
| "format_url prefix (JInt i) = Url (prefix @ py_str_int i)"
| "format_url prefix JNull = Url (prefix @ ''None'')"
| "format_url prefix (JBool b) = Url (prefix @ (if b then ''True'' else ''False''))"
| "format_url prefix v = UrlOf prefix v"

text \<open>
  One turn of the \<open>for\<close> loop of \<open>get_plumx_metrics\<close>, at index \<open>i\<close>. The entries
  are dicts, as the docstring says, each its own object. \<open>article_doi\<close> is a local
  variable of the function: \<open>None\<close> while it has never been assigned, and it keeps the
  value of an earlier turn. The \<open>except\<close> branch stores two \<open>None\<close> counts and ends
  with \<open>pass\<close>, so the turn goes on with the statements after the \<open>try\<close>.
\<close>

definition set_counts :: "json \<Rightarrow> json \<Rightarrow> dict \<Rightarrow> dict" where
  "set_counts policy news entry =
     AList.update ''news_mentions'' news (AList.update ''policy_citation_count'' policy entry)"

definition plumx_turn ::
  "world \<Rightarrow> string option \<Rightarrow> string \<Rightarrow> nat \<Rightarrow> dict list \<Rightarrow> json option \<Rightarrow> request list \<Rightarrow>
   (error + dict list \<times> json option) \<times> request list" where
  "plumx_turn w api_key inst_token i entries article_doi log =
     (if i \<ge> length entries then (Inl IndexError, log) else
      case (case map_of (entries ! i) ''prism:doi'' of
              Some d \<Rightarrow> (entries, Some d)
            | None \<Rightarrow> (entries[i := set_counts JNull JNull (entries ! i)], article_doi)) of
        (entries1, article_doi1) \<Rightarrow>
      case article_doi1 of
        None \<Rightarrow> (Inl (NameError ''article_doi''), log)
      | Some doi \<Rightarrow>
          (let plumx_url = format_url ''https://api.elsevier.com/analytics/plumx/doi/'' doi;
               headers = write_headers api_key inst_token ''application/json''
           in
           case fetch_data w plumx_url headers None log of
             (Inl e, log') \<Rightarrow> (Inl e, log')
           | (Inr my_request, log') \<Rightarrow>
               (case access_citation_counts my_request ''both'' of
                  Inl e \<Rightarrow> (Inl e, log')
                | Inr citation_counts \<Rightarrow>
                    (case map_of citation_counts ''policy'' of
                       None \<Rightarrow> (Inl (KeyError ''policy''), log')
                     | Some policy \<Rightarrow>
                         (case map_of citation_counts ''news'' of
                            None \<Rightarrow> (Inl (KeyError ''news''), log')
                          | Some news \<Rightarrow>
                              (Inr (entries1[i := set_counts policy news (entries1 ! i)], article_doi1),
                               log'))))))"

fun plumx_loop ::
  "world \<Rightarrow> string option \<Rightarrow> string \<Rightarrow> nat list \<Rightarrow> dict list \<Rightarrow> json option \<Rightarrow> request list \<Rightarrow>
   (error + dict list) \<times> request list" where
  "plumx_loop w api_key inst_token [] entries article_doi log = (Inr entries, log)"
| "plumx_loop w api_key inst_token (i # rest) entries article_doi log =
     (case plumx_turn w api_key inst_token i entries article_doi log of
        (Inl e, log') \<Rightarrow> (Inl e, log')
      | (Inr (entries', article_doi'), log') \<Rightarrow>
          plumx_loop w api_key inst_token rest entries' article_doi' log')"

text \<open>The list comprehension that keeps the entries with both counter keys.\<close>

definition has_counts :: "dict \<Rightarrow> bool" where
  "has_counts entry \<longleftrightarrow>
     map_of entry ''policy_citation_count'' \<noteq> None \<and> map_of entry ''news_mentions'' \<noteq> None"

text \<open>
  The sort key of \<open>entry_sorter\<close>: a pair whose components are a counter as it is or
  \<open>float ("-inf")\<close>. The news counter is read only when the policy counter is not
  \<open>None\<close>. Minus infinity equals itself, is below every number and cannot be ordered
  with anything else.
\<close>

datatype sort_value = MinusInfinity | Value json

fun value_eq :: "sort_value \<Rightarrow> sort_value \<Rightarrow> bool" where
  "value_eq MinusInfinity MinusInfinity = True"
| "value_eq (Value v) (Value v') = json_eq v v'"
| "value_eq a b = False"

fun value_lt :: "sort_value \<Rightarrow> sort_value \<Rightarrow> error + bool" where
  "value_lt MinusInfinity MinusInfinity = Inr False"
| "value_lt MinusInfinity (Value (JInt j)) = Inr True"
| "value_lt MinusInfinity (Value (JBool b)) = Inr True"
| "value_lt (Value (JInt i)) MinusInfinity = Inr False"
| "value_lt (Value (JBool a)) MinusInfinity = Inr False"
| "value_lt (Value v) (Value v') = json_lt v v'"
| "value_lt a b = Inl TypeError"

type_synonym sort_key = "sort_value \<times> sort_value"

text \<open>
  \<open><\<close> on two keys, as Python compares tuples: the first components that are not equal
  decide, and two keys with equal components are not below each other.
\<close>

definition key_lt :: "sort_key \<Rightarrow> sort_key \<Rightarrow> error + bool" where
  "key_lt k k' =
     (if \<not> value_eq (fst k) (fst k') then value_lt (fst k) (fst k')
      else if \<not> value_eq (snd k) (snd k') then value_lt (snd k) (snd k')
      else Inr False)"

definition entry_sorter :: "dict \<Rightarrow> error + sort_key" where
  "entry_sorter item =
     (case map_of item ''policy_citation_count'' of
        None \<Rightarrow> Inl (KeyError ''policy_citation_count'')
      | Some policy \<Rightarrow>
          if policy \<noteq> JNull then
            (case map_of item ''news_mentions'' of
               None \<Rightarrow> Inl (KeyError ''news_mentions'')
             | Some news \<Rightarrow> Inr (Value policy, Value news))
          else Inr (MinusInfinity, MinusInfinity))"

text \<open>The keys of all items, computed before any comparison; the first exception wins.\<close>

fun keyed :: "dict list \<Rightarrow> error + (sort_key \<times> dict) list" where
  "keyed [] = Inr []"
| "keyed (item # items) =
     (case entry_sorter item of
        Inl e \<Rightarrow> Inl e
      | Inr k \<Rightarrow> (case keyed items of Inl e \<Rightarrow> Inl e | Inr kis \<Rightarrow> Inr ((k, item) # kis)))"

text \<open>
  \<open>sorted (entries, key=entry_sorter, reverse=True)\<close>. The call raises \<open>TypeError\<close>
  as soon as a comparison of two keys raises. It has compared any two neighbours of the
  list it returns, and two keys that cannot be ordered are never kept apart by a third one,
  so the call returns exactly when every two of the keys can be ordered; a single entry is
  returned whatever its counters are. When it returns, Python has reversed the list, sorted
  it stably in ascending order of the keys and reversed the result. The stable ascending
  sort is written as an insertion sort.
\<close>

definition orderable :: "sort_key \<Rightarrow> sort_key \<Rightarrow> bool" where
  "orderable k k' \<longleftrightarrow> \<not> isl (key_lt k k') \<and> \<not> isl (key_lt k' k)"

fun all_orderable :: "sort_key list \<Rightarrow> bool" where
  "all_orderable [] = True"
| "all_orderable (k # ks) = (list_all (orderable k) ks \<and> all_orderable ks)"

fun insert_sorted :: "sort_key \<times> dict \<Rightarrow> (sort_key \<times> dict) list \<Rightarrow> (sort_key \<times> dict) list" where
  "insert_sorted x [] = [x]"
| "insert_sorted x (y # ys) =
     (if key_lt (fst y) (fst x) = Inr True then y # insert_sorted x ys else x # y # ys)"

definition stable_sort :: "(sort_key \<times> dict) list \<Rightarrow> (sort_key \<times> dict) list" where
  "stable_sort kis = foldr insert_sorted kis []"

definition sorted_reverse :: "dict list \<Rightarrow> error + dict list" where
  "sorted_reverse entries =
     (case keyed entries of
        Inl e \<Rightarrow> Inl e
      | Inr kis \<Rightarrow>
          if all_orderable (map fst kis) then Inr (map snd (rev (stable_sort (rev kis))))
          else Inl TypeError)"

text \<open>The filter and the sort that follow the loop.\<close>

definition sort_entries :: "dict list \<Rightarrow> error + dict list" where
  "sort_entries entries = sorted_reverse (filter has_counts entries)"

text \<open>
  \<open>get_plumx_metrics\<close>: the loop over \<open>range (len (entries))\<close>, the filter and the
  sort. With \<open>save_to_file\<close> the header row is read from \<open>entries[0]\<close>, which raises
  \<open>IndexError\<close> on an empty list; the file itself is not modelled.
\<close>

definition get_plumx_metrics ::
  "environ \<Rightarrow> world \<Rightarrow> dict list \<Rightarrow> bool \<Rightarrow> (error + dict list) \<times> request list" where
  "get_plumx_metrics env w entries save_to_file =
     (case load_api_credentials env of (api_key, inst_token) \<Rightarrow>
      case plumx_loop w api_key inst_token [0..<length entries] entries None [] of
        (Inl e, log) \<Rightarrow> (Inl e, log)
      | (Inr entries1, log) \<Rightarrow>
          (case sort_entries entries1 of
             Inl e \<Rightarrow> (Inl e, log)
           | Inr entries2 \<Rightarrow>
               if save_to_file \<and> entries2 = [] then (Inl IndexError, log)
               else (Inr entries2, log)))"

section \<open>Vocabulary of the statements and sample inputs\<close>

text \<open>Whether what \<open>fetch_data\<close> returned is a dict that has the key.\<close>

definition contains_key :: "fetched \<Rightarrow> string \<Rightarrow> bool" where
  "contains_key r k = (case r of Parsed (JDict kvs) \<Rightarrow> map_of kvs k \<noteq> None | other \<Rightarrow> False)"

text \<open>An analytics document with one category that holds one count type.\<close>

definition single_category :: "string \<Rightarrow> string \<Rightarrow> json \<Rightarrow> fetched" where
  "single_category category_name type_name total_v =
     Parsed (JDict [(''count_categories'',
       JList [JDict [(''name'', JStr category_name),
                     (''count_types'', JList [JDict [(''name'', JStr type_name), (''total'', total_v)]])]])])"

text \<open>A response with a given content type and status code.\<close>

definition sample_response :: "string \<Rightarrow> int \<Rightarrow> response" where
  "sample_response ct st =
     \<lparr>status_code = st, content_type = Some ct,
      json_body = Some (JDict [(''service-error'', JStr ''RESOURCE_NOT_FOUND'')]), content = ''...''\<rparr>"

text \<open>A network on which every request fails.\<close>

definition offline :: world where
  "offline req = Inl RequestError"

text \<open>The number a string of decimal digits denotes, read from the left.\<close>

definition digits_value :: "nat \<Rightarrow> string \<Rightarrow> nat" where
  "digits_value acc s = foldl (\<lambda>a c. 10 * a + the (digit_value c)) acc s"

text \<open>
  A well-behaved search provider, as a network: it holds a fixed list of results and
  answers every request with the page that begins at the requested offset and has at most
  \<open>per_page\<close> entries, reporting the total, the offset and the page size as decimal
  strings, as the search API does.
\<close>

definition page_document :: "json list \<Rightarrow> nat \<Rightarrow> nat \<Rightarrow> json" where
  "page_document items per_page offset =
     JDict [(''search-results'',
       JDict [(''opensearch:totalResults'', JStr (py_str_int (int (length items)))),
              (''opensearch:startIndex'', JStr (py_str_int (int offset))),
              (''opensearch:itemsPerPage'', JStr (py_str_int (int per_page))),
              (''entry'', JList (take per_page (drop offset items)))])]"

definition requested_offset :: "request \<Rightarrow> nat" where
  "requested_offset req =
     (case req_params req of
        None \<Rightarrow> 0
      | Some ps \<Rightarrow> (case py_int (start ps) of Inl e \<Rightarrow> 0 | Inr i \<Rightarrow> nat i))"

definition paged_provider :: "json list \<Rightarrow> nat \<Rightarrow> world" where
  "paged_provider items per_page req =
     Inr \<lparr>status_code = 200, content_type = Some ''application/json'',
          json_body = Some (page_document items per_page (requested_offset req)),
          content = []\<rparr>"

text \<open>The ceiling of \<open>n / d\<close> on natural numbers.\<close>

definition ceil_div :: "nat \<Rightarrow> nat \<Rightarrow> nat" where
  "ceil_div n d = (n + d - 1) div d"

text \<open>The first request of a search without credentials and without a date range.\<close>

definition first_request :: "string \<Rightarrow> string \<Rightarrow> request" where
  "first_request u q =
     \<lparr>req_url = Url u,
      req_headers = [(''X-ELS-APIKey'', None), (''Accept'', Some ''application/json'')],
      req_params = Some \<lparr>start = JInt 0, count = 50,
        field = ''prism:doi,dc:title,prism:publicationName,prism:coverDate,dc:creator'',
        date = None, query = q\<rparr>\<rparr>"

definition sample_items :: "nat \<Rightarrow> json list" where
  "sample_items n = replicate n (JDict [(''dc:title'', JStr ''Sleep'')])"

text \<open>
  An analytics service that knows one article, with 3 policy citations and 7 news
  mentions, and answers 404 with a JSON error for any other URL; an entry that has the
  DOI of that article and an entry that has no DOI.
\<close>

definition plumx_document :: json where
  "plumx_document =
     JDict [(''id_value'', JStr ''10.1016/j.a''),
            (''count_categories'',
             JList [JDict [(''name'', JStr ''citation''),
                           (''count_types'', JList [JDict [(''name'', JStr ''POLICY_CITED_BY_COUNT''), (''total'', JInt 3)]])],
                    JDict [(''name'', JStr ''mention''),
                           (''count_types'', JList [JDict [(''name'', JStr ''NEWS_COUNT''), (''total'', JInt 7)]])]])]"

definition plumx_sample :: world where
  "plumx_sample req =
     (if req_url req = Url ''https://api.elsevier.com/analytics/plumx/doi/10.1016/j.a''
      then Inr \<lparr>status_code = 200, content_type = Some ''application/json'',
                json_body = Some plumx_document, content = []\<rparr>
      else Inr \<lparr>status_code = 404, content_type = Some ''application/json'',
                json_body = Some (JDict [(''error_code'', JStr ''404'')]), content = []\<rparr>)"

definition with_doi :: dict where
  "with_doi = [(''prism:doi'', JStr ''10.1016/j.a''), (''dc:title'', JStr ''A'')]"

definition without_doi :: dict where
  "without_doi = [(''dc:title'', JStr ''B'')]"

definition plumx_request :: request where
  "plumx_request =
     \<lparr>req_url = Url ''https://api.elsevier.com/analytics/plumx/doi/10.1016/j.a'',
      req_headers = [(''X-ELS-APIKey'', None), (''Accept'', Some ''application/json'')],
      req_params = None\<rparr>"














section \<open>Properties of the query builder\<close>

lemma truthy_list_given: "truthy_list arg \<longleftrightarrow> given arg \<noteq> []"
  by (cases arg) (simp_all add: given_def)

lemma py_join_nonempty: "xs \<noteq> [] \<Longrightarrow> hd xs \<noteq> [] \<Longrightarrow> py_join sep xs \<noteq> []"
  by (induction sep xs rule: py_join.induct) simp_all

lemma append_clause_keywords:
  "append_clause keywords keyword_clause q =
     Inr (q @ (if given keywords = [] then []
               else [''TITLE('' @ py_join '' AND '' (map (\<lambda>k. [CHR 0x27] @ k @ [CHR 0x27]) (given keywords)) @ '')'']))"
  by (cases "keywords")
     (simp_all add: append_clause_def keyword_clause_def join_with_operator_def given_def)

lemma append_clause_subjs:
  "append_clause subjs subject_clause q =
     Inr (q @ (if given subjs = [] then []
               else [''SUBJAREA('' @ py_join '' OR '' (given subjs) @ '')'']))"
  by (cases "subjs")
     (simp_all add: append_clause_def subject_clause_def join_with_operator_def given_def)

lemma append_clause_author_ids:
  "append_clause author_ids author_id_clause q =
     Inr (q @ (if given author_ids = [] then []
               else [py_join '' OR '' (map (\<lambda>i. ''AU-ID('' @ i @ '')'') (given author_ids))]))"
  by (cases "author_ids")
     (simp_all add: append_clause_def author_id_clause_def join_with_operator_def given_def)

lemma append_clause_authors:
  "append_clause authors author_clause q =
     Inr (q @ (if given authors = [] then []
               else [''AUTHOR-NAME('' @ py_join '' OR '' (given authors) @ '')'']))"
  by (cases "authors")
     (simp_all add: append_clause_def author_clause_def join_with_operator_def given_def)

lemma write_query_unfold:
  "write_query keywords subjs author_ids authors date_range =
     (if spec_query keywords subjs author_ids authors = []
      then Inl (ValueError ''Query parameter cannot be empty.'')
      else Inr \<lparr>start = JInt 0, count = 50,
                field = ''prism:doi,dc:title,prism:publicationName,prism:coverDate,dc:creator'',
                date = (if truthy_str date_range then date_range else None),
                query = spec_query keywords subjs author_ids authors\<rparr>)"
  by (simp add: write_query_def append_clause_keywords append_clause_subjs
      append_clause_author_ids append_clause_authors join_with_operator_def
      spec_query_def spec_clauses_def)

lemma author_id_join_nonempty:
  "ids \<noteq> [] \<Longrightarrow> py_join sep (map (\<lambda>i. ''AU-ID('' @ i @ '')'') ids) \<noteq> []"
  by (rule py_join_nonempty) (simp_all add: hd_map)

lemma spec_clauses_hd_nonempty:
  "spec_clauses keywords subjs author_ids authors \<noteq> [] \<Longrightarrow>
   hd (spec_clauses keywords subjs author_ids authors) \<noteq> []"
  using author_id_join_nonempty [of "given author_ids" "'' OR ''"]
  by (auto simp: spec_clauses_def split: if_splits)

lemma spec_query_nonempty:
  "spec_clauses keywords subjs author_ids authors \<noteq> [] \<Longrightarrow>
   spec_query keywords subjs author_ids authors \<noteq> []"
  unfolding spec_query_def by (rule py_join_nonempty) (simp_all add: spec_clauses_hd_nonempty)

lemma spec_clauses_length:
  "length (spec_clauses keywords subjs author_ids authors) =
   length (filter truthy_list [keywords, subjs, author_ids, authors])"
  by (simp add: spec_clauses_def truthy_list_given)

text \<open>
  C3. Whenever at least one of the four filters is given and not empty,
  \<open>write_query\<close> returns parameters whose query string is the one the specification
  describes: the clauses of the non-empty filters, one each, in the order keywords,
  subjects, author identifiers, author names, joined by \<open>AND\<close>; the keywords quoted one
  by one and \<open>AND\<close>-joined inside \<open>TITLE(...)\<close>, the subjects \<open>OR\<close>-joined inside
  \<open>SUBJAREA(...)\<close>, each author identifier inside its own \<open>AU-ID(...)\<close> and
  \<open>OR\<close>-joined with no outer wrapper, the author names \<open>OR\<close>-joined inside
  \<open>AUTHOR-NAME(...)\<close>.
\<close>

theorem write_query_clauses:
  assumes "truthy_list keywords \<or> truthy_list subjs \<or> truthy_list author_ids \<or> truthy_list authors"
  shows "\<exists>p. write_query keywords subjs author_ids authors date_range = Inr p
           \<and> query p = py_join '' AND '' (spec_clauses keywords subjs author_ids authors)
           \<and> length (spec_clauses keywords subjs author_ids authors)
               = length (filter truthy_list [keywords, subjs, author_ids, authors])"
proof -
  from assms have "spec_clauses keywords subjs author_ids authors \<noteq> []"
    by (auto simp: spec_clauses_def truthy_list_given)
  then have "spec_query keywords subjs author_ids authors \<noteq> []"
    by (rule spec_query_nonempty)
  then show ?thesis
    by (simp add: write_query_unfold spec_clauses_length) (simp add: spec_query_def)
qed

theorem write_query_clauses_witness:
  "\<exists>p. write_query (Some [''meta-analysis'', ''depression'']) None (Some [''7004212771'', ''55'']) (Some [''Fujii''])
          (Some ''2020-2025'') = Inr p
     \<and> query p = ''TITLE('meta-analysis' AND 'depression') AND AU-ID(7004212771) OR AU-ID(55) AND AUTHOR-NAME(Fujii)''
     \<and> length (spec_clauses (Some [''meta-analysis'', ''depression'']) None (Some [''7004212771'', ''55'']) (Some [''Fujii''])) = 3"
  using write_query_clauses [of "Some [''meta-analysis'', ''depression'']" None
      "Some [''7004212771'', ''55'']" "Some [''Fujii'']" "Some ''2020-2025''"]
  by (simp add: spec_clauses_def given_def)

text \<open>
  C9. When every filter is absent or empty, \<open>write_query\<close> raises the
  \<open>ValueError\<close> of the empty query and returns no parameters.
\<close>

theorem write_query_empty:
  assumes "\<not> truthy_list keywords" "\<not> truthy_list subjs" "\<not> truthy_list author_ids"
    "\<not> truthy_list authors"
  shows "write_query keywords subjs author_ids authors date_range
           = Inl (ValueError ''Query parameter cannot be empty.'')"
  using assms by (simp add: write_query_unfold spec_query_def spec_clauses_def truthy_list_given)

theorem write_query_empty_witness:
  "\<not> truthy_list (None :: string list option) \<and> \<not> truthy_list (Some ([] :: string list))
   \<and> write_query None (Some []) None (Some []) (Some ''2020-2025'')
       = Inl (ValueError ''Query parameter cannot be empty.'')"
  using write_query_empty [of None "Some []" None "Some []" "Some ''2020-2025''"]
  by simp

section \<open>Properties of the HTTP fetcher\<close>

text \<open>
  C7. For every response, \<open>fetch_data\<close> branches on the declared content type alone,
  the branches tried in the order of the source: a content type containing \<open>image\<close> or
  \<open>pdf\<close> returns the response object; otherwise one containing \<open>json\<close> returns what
  \<open>response.json()\<close> gives; otherwise one containing \<open>xml\<close> raises the
  \<open>ValueError\<close>; any other content type returns \<open>None\<close>. The status code is not
  inspected: with any other status code the outcome is the same.
\<close>

theorem fetch_data_branches:
  assumes "w \<lparr>req_url = u, req_headers = hs, req_params = ps\<rparr> = Inr r"
  shows "(py_in ''image'' (declared_type r) \<or> py_in ''pdf'' (declared_type r) \<longrightarrow>
            fst (fetch_data w u hs ps log) = Inr (Raw r))
       \<and> (\<not> py_in ''image'' (declared_type r) \<and> \<not> py_in ''pdf'' (declared_type r)
            \<and> py_in ''json'' (declared_type r) \<longrightarrow>
            fst (fetch_data w u hs ps log)
              = (case json_body r of None \<Rightarrow> Inl JSONDecodeError | Some j \<Rightarrow> Inr (Parsed j)))
       \<and> (\<not> py_in ''image'' (declared_type r) \<and> \<not> py_in ''pdf'' (declared_type r)
            \<and> \<not> py_in ''json'' (declared_type r) \<and> py_in ''xml'' (declared_type r) \<longrightarrow>
            fst (fetch_data w u hs ps log)
              = Inl (ValueError ''Output is in XML. Specify 'application/json' in headers.''))
       \<and> (\<not> py_in ''image'' (declared_type r) \<and> \<not> py_in ''pdf'' (declared_type r)
            \<and> \<not> py_in ''json'' (declared_type r) \<and> \<not> py_in ''xml'' (declared_type r) \<longrightarrow>
            fst (fetch_data w u hs ps log) = Inr Nothing)
       \<and> fst (fetch_data (\<lambda>q. Inr (r\<lparr>status_code := s\<rparr>)) u hs ps log)
            = (case fst (fetch_data w u hs ps log) of
                 Inr (Raw x) \<Rightarrow> Inr (Raw (x\<lparr>status_code := s\<rparr>))
               | other \<Rightarrow> other)"
  using assms by (simp add: fetch_data_def declared_type_def Let_def split: option.splits)

theorem fetch_data_branches_witness:
  "fst (fetch_data (\<lambda>q. Inr (sample_response ''application/pdf'' 200)) (Url ''u'') [] None [])
     = Inr (Raw (sample_response ''application/pdf'' 200))
   \<and> fst (fetch_data (\<lambda>q. Inr (sample_response ''application/json;charset=UTF-8'' 404)) (Url ''u'') [] None [])
     = Inr (Parsed (JDict [(''service-error'', JStr ''RESOURCE_NOT_FOUND'')]))
   \<and> fst (fetch_data (\<lambda>q. Inr (sample_response ''text/xml'' 200)) (Url ''u'') [] None [])
     = Inl (ValueError ''Output is in XML. Specify 'application/json' in headers.'')
   \<and> fst (fetch_data (\<lambda>q. Inr (sample_response ''text/html'' 500)) (Url ''u'') [] None [])
     = Inr Nothing"
  using
    fetch_data_branches [of "\<lambda>q. Inr (sample_response ''application/pdf'' 200)" "Url ''u''" "[]" None
      "sample_response ''application/pdf'' 200" "[]"]
    fetch_data_branches [of "\<lambda>q. Inr (sample_response ''application/json;charset=UTF-8'' 404)" "Url ''u''" "[]" None
      "sample_response ''application/json;charset=UTF-8'' 404" "[]"]
    fetch_data_branches [of "\<lambda>q. Inr (sample_response ''text/xml'' 200)" "Url ''u''" "[]" None
      "sample_response ''text/xml'' 200" "[]"]
    fetch_data_branches [of "\<lambda>q. Inr (sample_response ''text/html'' 500)" "Url ''u''" "[]" None
      "sample_response ''text/html'' 500" "[]"]
  by (simp add: sample_response_def declared_type_def)

section \<open>Properties of the citation counts\<close>

lemma fetched_subscript_contains:
  "contains_key r k \<Longrightarrow> \<exists>v. fetched_subscript r k = Inr v"
  by (auto simp: contains_key_def split: fetched.splits json.splits)

lemma fetched_subscript_absent:
  "\<not> contains_key r k \<Longrightarrow> \<exists>e. fetched_subscript r k = Inl e"
  by (cases r; simp add: contains_key_def split: json.splits)

lemma scan_categories_absent:
  "\<forall>c \<in> set cs. \<exists>n. subscript c ''name'' = Inr n \<and> n \<noteq> JStr kind \<Longrightarrow>
   scan_categories citation_type kind cs = Inr (JInt 0)"
  by (induction cs) auto

text \<open>
  C10. For a citation type that, lower-cased and stripped, is none of \<open>news\<close>,
  \<open>policy\<close>, \<open>both\<close>: \<open>access_citation_counts\<close> raises the \<open>ValueError\<close> exactly
  when the response has the key \<open>count_categories\<close>; when it has not, the function
  returns the dict that maps the normalised citation type to \<open>None\<close>, without raising.
\<close>

theorem access_citation_counts_invalid_type:
  assumes "py_strip (py_lower citation_type) \<notin> {''news'', ''policy'', ''both''}"
  shows "access_citation_counts plumx_response citation_type =
           (if contains_key plumx_response ''count_categories''
            then Inl (ValueError ''Citation type must be 'news', 'policy', or 'both'.'')
            else Inr [(py_strip (py_lower citation_type), JNull)])"
proof (cases "contains_key plumx_response ''count_categories''")
  case True
  then obtain v where "fetched_subscript plumx_response ''count_categories'' = Inr v"
    using fetched_subscript_contains by blast
  with True assms show ?thesis
    by (simp add: access_citation_counts_def Let_def)
next
  case False
  then obtain e where "fetched_subscript plumx_response ''count_categories'' = Inl e"
    using fetched_subscript_absent by blast
  with False assms show ?thesis
    by (simp add: access_citation_counts_def Let_def no_counts_def split: sum.splits)
qed

theorem access_citation_counts_invalid_type_witness:
  "access_citation_counts (Parsed (JDict [(''count_categories'', JList [])])) '' Blogs ''
     = Inl (ValueError ''Citation type must be 'news', 'policy', or 'both'.'')
   \<and> access_citation_counts (Parsed (JDict [(''id_value'', JStr ''10.1/x'')])) '' Blogs ''
     = Inr [(''blogs'', JNull)]
   \<and> access_citation_counts Nothing '' Blogs '' = Inr [(''blogs'', JNull)]"
  using access_citation_counts_invalid_type [of "'' Blogs ''" "Parsed (JDict [(''count_categories'', JList [])])"]
    access_citation_counts_invalid_type [of "'' Blogs ''" "Parsed (JDict [(''id_value'', JStr ''10.1/x'')])"]
    access_citation_counts_invalid_type [of "'' Blogs ''" Nothing]
  by (simp add: contains_key_def py_lower_def py_strip_def lower_char_def is_space_def)

text \<open>
  C2, as the specification states it, fails: for the category list with the one category
  named \<open>news\<close> whose one count type is named \<open>mention\<close> with total 7, the request for
  \<open>news\<close> returns the count 0, not 7. The code looks for the category named
  \<open>mention\<close> and, inside it, for a count type whose name contains \<open>news\<close>.
\<close>

theorem access_citation_counts_news_spec_example:
  "access_citation_counts (single_category ''news'' ''mention'' (JInt 7)) ''news'' = Inr [(''news'', JInt 0)]
   \<and> access_citation_counts (single_category ''news'' ''mention'' (JInt 7)) ''news'' \<noteq> Inr [(''news'', JInt 7)]"
  by (simp add: single_category_def access_citation_counts_def extract_count_def py_lower_def
      py_strip_def lower_char_def is_space_def)

text \<open>
  C2, amended. For the category list with the one category named \<open>mention\<close> whose one
  count type has a name that contains \<open>news\<close> (in any letter case) and the total \<open>v\<close>,
  the request for \<open>news\<close> returns \<open>{"news": v}\<close>; and for a list of categories none of
  which is named \<open>kind\<close>, the extracted count is the integer 0, not \<open>None\<close>.
\<close>

theorem access_citation_counts_news:
  "(py_in ''news'' (py_lower type_name) \<longrightarrow>
      access_citation_counts (single_category ''mention'' type_name v) ''news'' = Inr [(''news'', v)])
   \<and> ((\<forall>c \<in> set cs. \<exists>n. subscript c ''name'' = Inr n \<and> n \<noteq> JStr kind) \<longrightarrow>
      extract_count (JList cs) citation_type kind = Inr (JInt 0))"
proof -
  have norm: "py_strip (py_lower ''news'') = ''news''"
    by (simp add: py_lower_def py_strip_def lower_char_def is_space_def)
  show ?thesis
    by (simp add: single_category_def access_citation_counts_def norm extract_count_def
        scan_categories_absent)
qed

theorem access_citation_counts_news_witness:
  "access_citation_counts (single_category ''mention'' ''news'' (JInt 7)) ''news'' = Inr [(''news'', JInt 7)]
   \<and> access_citation_counts (single_category ''mention'' ''NEWS_COUNT'' (JInt 7)) ''news'' = Inr [(''news'', JInt 7)]
   \<and> extract_count (JList [JDict [(''name'', JStr ''news''),
                                   (''count_types'', JList [JDict [(''name'', JStr ''mention''), (''total'', JInt 7)]])]])
        ''news'' ''mention'' = Inr (JInt 0)
   \<and> extract_count (JList []) ''policy'' ''citation'' = Inr (JInt 0)"
  using access_citation_counts_news [of "''news''" "JInt 7"
      "[JDict [(''name'', JStr ''news''),
               (''count_types'', JList [JDict [(''name'', JStr ''mention''), (''total'', JInt 7)]])]]"
      "''mention''" "''news''"]
    access_citation_counts_news [of "''NEWS_COUNT''" "JInt 7" "[]" "''citation''" "''policy''"]
  by (simp add: py_lower_def lower_char_def)

section \<open>Properties of the search orchestrator\<close>

text \<open>
  C8. With an author-identifier filter or a subject filter that is not empty: for the
  database names \<open>sciencedirect\<close> and \<open>scidir\<close> (lower-cased and stripped)
  \<open>search_database\<close> raises a \<open>ValueError\<close> and has issued no request; for the
  database name \<open>scopus\<close> the filters are accepted, that is, the query is built with
  them and the function enters the pagination loop on the Scopus endpoint.
\<close>

theorem search_database_filters:
  assumes "truthy_list author_ids \<or> truthy_list subjs"
  shows "(py_strip (py_lower database_name) \<in> {''sciencedirect'', ''scidir''} \<longrightarrow>
            search_database env w kws date_range authors subjs author_ids database_name max_results
                save_to_csv
              = Some (Inl (ValueError
                  (if truthy_list author_ids
                   then ''SciDir does not accept subject or author ID. Provide author name or use Scopus.''
                   else ''SciDir does not accept the subject query parameter. Use Scopus.'')), []))
       \<and> (py_strip (py_lower database_name) = ''scopus'' \<longrightarrow>
            (\<exists>ps. write_query kws subjs author_ids authors date_range = Inr ps
               \<and> query ps = spec_query kws subjs author_ids authors
               \<and> search_database env w kws date_range authors subjs author_ids database_name max_results
                     save_to_csv
                   = map_option (finish_search save_to_csv)
                       (search_loop w (Url ''https://api.elsevier.com/content/search/scopus'')
                          (write_headers (fst (load_api_credentials env)) (snd (load_api_credentials env))
                             ''application/json'')
                          max_results ps [] [])))"
proof -
  from assms have "spec_clauses kws subjs author_ids authors \<noteq> []"
    by (auto simp: spec_clauses_def truthy_list_given)
  then have q: "spec_query kws subjs author_ids authors \<noteq> []"
    by (rule spec_query_nonempty)
  have a: "py_in ''sciencedirect'' ''https://api.elsevier.com/content/search/sciencedirect''"
    by simp
  have b: "\<not> py_in ''sciencedirect'' ''https://api.elsevier.com/content/search/scopus''"
    by simp
  show ?thesis
    using assms q a b
    by (auto simp: search_database_def select_url_def check_filter_def write_query_unfold
        Let_def split: prod.splits)
qed

lemma search_loop_offline:
  "search_loop offline u hs m ps acc log = Some (Inl RequestError, log @ [\<lparr>req_url = u, req_headers = hs, req_params = Some ps\<rparr>])"
  by (subst search_loop.simps) (simp add: fetch_data_def offline_def)

theorem search_database_filters_witness:
  "search_database Map.empty offline None None None None (Some [''7004212771'']) '' SciDir'' (Some 50) False
     = Some (Inl (ValueError ''SciDir does not accept subject or author ID. Provide author name or use Scopus.''), [])
   \<and> search_database Map.empty offline (Some [''sleep'']) None None (Some [''MEDI'']) None ''sciencedirect'' (Some 50) False
     = Some (Inl (ValueError ''SciDir does not accept the subject query parameter. Use Scopus.''), [])
   \<and> search_database Map.empty offline None None None (Some [''MEDI'']) (Some [''7004212771'']) ''Scopus'' (Some 50) False
     = Some (Inl RequestError,
         [\<lparr>req_url = Url ''https://api.elsevier.com/content/search/scopus'',
           req_headers = [(''X-ELS-APIKey'', None), (''Accept'', Some ''application/json'')],
           req_params = Some \<lparr>start = JInt 0, count = 50,
             field = ''prism:doi,dc:title,prism:publicationName,prism:coverDate,dc:creator'',
             date = None, query = ''SUBJAREA(MEDI) AND AU-ID(7004212771)''\<rparr>\<rparr>])"
  using search_database_filters [of "Some [''7004212771'']" None "'' SciDir''" Map.empty offline None None None "Some 50" False]
    search_database_filters [of None "Some [''MEDI'']" "''sciencedirect''" Map.empty offline "Some [''sleep'']" None None "Some 50" False]
    search_database_filters [of "Some [''7004212771'']" "Some [''MEDI'']" "''Scopus''" Map.empty offline None None None "Some 50" False]
  by (simp add: py_lower_def py_strip_def lower_char_def is_space_def search_loop_offline
      write_query_unfold spec_query_def spec_clauses_def given_def load_api_credentials_def
      write_headers_def finish_search_def)

section \<open>Decimal text of integers\<close>

lemma digit_value_digit_char: "digit_value (digit_char k) = Some (k mod 10)"
proof -
  have "k mod 10 < 10" by simp
  then have "k mod 10 = 0 \<or> k mod 10 = 1 \<or> k mod 10 = 2 \<or> k mod 10 = 3 \<or> k mod 10 = 4
      \<or> k mod 10 = 5 \<or> k mod 10 = 6 \<or> k mod 10 = 7 \<or> k mod 10 = 8 \<or> k mod 10 = 9"
    by arith
  then show ?thesis
    unfolding digit_value_def digit_char_def by (elim disjE) simp_all
qed

lemma digit_not_space: "digit_value c = Some d \<Longrightarrow> \<not> is_space c"
  by (auto simp: digit_value_def is_space_def split: if_splits)

lemma digit_not_sign: "digit_value c = Some d \<Longrightarrow> c \<noteq> CHR ''-'' \<and> c \<noteq> CHR ''+''"
  by (auto simp: digit_value_def split: if_splits)

lemma parse_digits_append:
  "\<forall>c \<in> set xs. digit_value c \<noteq> None \<Longrightarrow>
   parse_digits acc b (xs @ ys) = parse_digits (digits_value acc xs) (b \<or> xs \<noteq> []) ys"
  by (induction xs arbitrary: acc b) (auto simp: digits_value_def)

lemma digits_of_digits: "\<forall>c \<in> set (digits_of n). digit_value c \<noteq> None"
  by (induction n rule: digits_of.induct) (subst digits_of.simps, simp add: digit_value_digit_char)

lemma digits_of_nonempty: "digits_of n \<noteq> []"
  by (subst digits_of.simps) simp

lemma digits_value_digits_of: "digits_value 0 (digits_of n) = n"
proof (induction n rule: digits_of.induct)
  case (1 n)
  show ?case
  proof (cases "n < 10")
    case True
    then show ?thesis
      by (subst digits_of.simps) (simp add: digits_value_def digit_value_digit_char)
  next
    case False
    with 1 have "digits_value 0 (digits_of (n div 10)) = n div 10" by simp
    with False show ?thesis
      by (subst digits_of.simps) (simp add: digits_value_def digit_value_digit_char)
  qed
qed

lemma parse_digits_digits_of: "parse_digits 0 False (digits_of n) = Some n"
  using parse_digits_append [OF digits_of_digits, of 0 False n "[]"]
  by (simp add: digits_value_digits_of digits_of_nonempty)

lemma py_strip_digits_of: "py_strip (digits_of n) = digits_of n"
proof -
  have ne: "digits_of n \<noteq> []" by (rule digits_of_nonempty)
  have "hd (digits_of n) \<in> set (digits_of n)" "last (digits_of n) \<in> set (digits_of n)"
    using ne by simp_all
  then have "\<not> is_space (hd (digits_of n))" "\<not> is_space (last (digits_of n))"
    using digits_of_digits digit_not_space by blast+
  then have "dropWhile is_space (digits_of n) = digits_of n"
    "dropWhile is_space (rev (digits_of n)) = rev (digits_of n)"
    using ne by (simp_all add: dropWhile_eq_self_iff hd_rev)
  then show ?thesis by (simp add: py_strip_def)
qed

lemma int_of_string_digits_of: "int_of_string (digits_of n) = Inr (int n)"
proof -
  obtain c cs where cs: "digits_of n = c # cs"
    using digits_of_nonempty by (cases "digits_of n") auto
  then have "c \<in> set (digits_of n)" by simp
  then obtain d where "digit_value c = Some d"
    using digits_of_digits by blast
  then have "c \<noteq> CHR ''-''" "c \<noteq> CHR ''+''"
    using digit_not_sign by blast+
  moreover have "parse_digits 0 False (c # cs) = Some n"
    using parse_digits_digits_of [of n] by (simp only: cs)
  moreover have "py_strip (c # cs) = c # cs"
    using py_strip_digits_of [of n] by (simp only: cs)
  ultimately show ?thesis
    by (simp add: int_of_string_def cs)
qed

lemma py_int_py_str_int: "py_int (JStr (py_str_int (int n))) = Inr (int n)"
  by (simp add: py_str_int_def int_of_string_digits_of)

section \<open>Properties of the pagination loop\<close>

lemma fetch_data_paged:
  "py_int (start ps) = Inr (int s) \<Longrightarrow>
   fetch_data (paged_provider items P) u hs (Some ps) log
     = (Inr (Parsed (page_document items P s)),
        log @ [\<lparr>req_url = u, req_headers = hs, req_params = Some ps\<rparr>])"
  by (simp add: fetch_data_def paged_provider_def requested_offset_def declared_type_def)

lemma iterate_search_info_page:
  "iterate_search_info (Parsed (page_document items P s))
     = Some (JList (take P (drop s items)), int (length items), int s, int P)"
  by (simp add: iterate_search_info_def page_document_def dict_get_def py_int_py_str_int
      del: py_int.simps)

lemma ceil_step:
  assumes "0 < P" "s + P < T"
  shows "Suc ((T - (s + P) + P - 1) div P) = (T - s + P - 1) div P"
proof -
  define x where "x = T - (s + P) + P - 1"
  have "T - s + P - 1 = x + P"
    using assms by (simp add: x_def)
  moreover have "(x + P) div P = Suc (x div P)"
    using assms by (simp add: div_add_self2)
  ultimately have "(T - s + P - 1) div P = Suc (x div P)"
    by (simp only:)
  then show ?thesis
    by (simp only: x_def)
qed

lemma ceil_last:
  assumes "0 < P" "s < T" "T \<le> s + P"
  shows "(T - s + P - 1) div P = Suc 0"
proof -
  have "P \<le> T - s + P - 1" "T - s + P - 1 < 2 * P"
    using assms by simp_all
  then show ?thesis
    by (metis One_nat_def Suc_1 div_nat_eqI mult.commute mult_1_right mult_2)
qed

lemma search_loop_paged:
  assumes P: "0 < P"
  shows "py_int (start ps) = Inr (int s) \<Longrightarrow>
    \<exists>reqs. search_loop (paged_provider items P) u hs None ps acc log
              = Some (Inr (acc @ drop s items), log @ reqs)
          \<and> length reqs = (if length items \<le> s then 1 else (length items - s + P - 1) div P)"
proof (induction "length items - s" arbitrary: s ps acc log rule: less_induct)
  case less
  let ?T = "length items"
  let ?req = "\<lparr>req_url = u, req_headers = hs, req_params = Some ps\<rparr>"
  let ?es = "take P (drop s items)"
  note step = fetch_data_paged [OF less.prems, of items P u hs log] iterate_search_info_page [of items P s]
  consider (empty) "?T \<le> s" | (last) "s < ?T" "?T \<le> s + P" | (more) "s + P < ?T"
    by linarith
  then show ?case
  proof cases
    case empty
    then have "search_loop (paged_provider items P) u hs None ps acc log
        = Some (Inr (acc @ drop s items), log @ [?req])"
      by (subst search_loop.simps) (simp add: step)
    with empty show ?thesis by simp
  next
    case last
    then have "?es = drop s items" by simp
    with last have "search_loop (paged_provider items P) u hs None ps acc log
        = Some (Inr (acc @ drop s items), log @ [?req])"
      by (subst search_loop.simps) (simp add: step)
    with last ceil_last [OF P last] show ?thesis by simp
  next
    case more
    let ?ps = "ps\<lparr>start := JStr (py_str_int (int (s + P)))\<rparr>"
    have len: "length ?es = P" using more by simp
    have unfold: "search_loop (paged_provider items P) u hs None ps acc log
        = search_loop (paged_provider items P) u hs None ?ps (acc @ ?es) (log @ [?req])"
      using more by (subst search_loop.simps) (simp add: step len)
    have "py_int (start ?ps) = Inr (int (s + P))"
      by (simp add: py_int_py_str_int del: py_int.simps of_nat_add)
    moreover have "?T - (s + P) < ?T - s" using more P by simp
    ultimately obtain reqs where
      r: "search_loop (paged_provider items P) u hs None ?ps (acc @ ?es) (log @ [?req])
            = Some (Inr ((acc @ ?es) @ drop (s + P) items), (log @ [?req]) @ reqs)"
      and l: "length reqs = (if ?T \<le> s + P then 1 else (?T - (s + P) + P - 1) div P)"
      using less.hyps [of "s + P" ?ps "acc @ ?es" "log @ [?req]"] by blast
    have "?es @ drop (s + P) items = drop s items"
      by (metis add.commute drop_drop append_take_drop_id)
    with unfold r have "search_loop (paged_provider items P) u hs None ps acc log
        = Some (Inr (acc @ drop s items), log @ (?req # reqs))" by simp
    moreover have "length (?req # reqs) = (?T - s + P - 1) div P"
      using l more ceil_step [OF P more] by simp
    ultimately show ?thesis using more by (intro exI [of _ "?req # reqs"]) simp
  qed
qed

lemma finish_search_False: "finish_search False = (\<lambda>outcome. outcome)"
  by (rule ext) (simp add: finish_search_def split: prod.splits sum.splits)

lemma normalise_scidir: "py_strip (py_lower ''scidir'') = ''scidir''"
  by (simp add: py_lower_def py_strip_def lower_char_def is_space_def)

lemma search_database_scidir:
  assumes "truthy_list kws \<or> truthy_list authors"
  shows "search_database env w kws date_range authors None None ''scidir'' max_results False
     = search_loop w (Url ''https://api.elsevier.com/content/search/sciencedirect'')
         (write_headers (fst (load_api_credentials env)) (snd (load_api_credentials env)) ''application/json'')
         max_results
         \<lparr>start = JInt 0, count = 50,
          field = ''prism:doi,dc:title,prism:publicationName,prism:coverDate,dc:creator'',
          date = (if truthy_str date_range then date_range else None),
          query = spec_query kws None None authors\<rparr> [] []"
proof -
  from assms have "spec_clauses kws None None authors \<noteq> []"
    by (auto simp: spec_clauses_def truthy_list_given)
  then have "spec_query kws None None authors \<noteq> []"
    by (rule spec_query_nonempty)
  then show ?thesis
    by (simp add: search_database_def normalise_scidir select_url_def check_filter_def
        write_query_unfold finish_search_False option.map_ident split: prod.splits)
qed

text \<open>
  C5, as the specification states it, fails when the provider has no hit: the loop
  fetches before it tests anything, so it issues one request, while the ceiling of
  \<open>0 / 50\<close> is 0.
\<close>

theorem search_database_pagination_no_hits:
  "search_database Map.empty (paged_provider [] 50) (Some [''sleep'']) None None None None ''scidir'' None False
     = Some (Inr [], [first_request ''https://api.elsevier.com/content/search/sciencedirect'' ''TITLE('sleep')''])
   \<and> length [first_request ''https://api.elsevier.com/content/search/sciencedirect'' ''TITLE('sleep')'']
       \<noteq> ceil_div (length ([] :: json list)) 50"
proof -
  have "py_int (start \<lparr>start = JInt 0, count = 50,
          field = ''prism:doi,dc:title,prism:publicationName,prism:coverDate,dc:creator'',
          date = None, query = ''TITLE('sleep')''\<rparr>) = Inr (int 0)" by simp
  note step = fetch_data_paged [OF this, of "[]" 50] iterate_search_info_page [of "[]" 50 0]
  show ?thesis
    by (simp add: search_database_scidir spec_query_def spec_clauses_def given_def
        load_api_credentials_def write_headers_def ceil_div_def first_request_def)
       (subst search_loop.simps, simp add: step)
qed

text \<open>
  C5, amended. With no result cap (\<open>max_results\<close> is \<open>None\<close>), against a provider that
  serves \<open>total\<close> results in pages of \<open>per_page > 0\<close> entries, the search returns: all
  \<open>total\<close> results are accumulated, after exactly the ceiling of \<open>total / per_page\<close>
  page fetches when \<open>total > 0\<close>, and after exactly one fetch when \<open>total = 0\<close>. With
  \<open>total = 120\<close> and \<open>per_page = 50\<close> there are 3 fetches and 120 entries. This holds
  of the loop started at offset 0 with any URL, headers and parameters, and of
  \<open>search_database\<close> called with a keyword or author-name filter.
\<close>

theorem search_database_pagination:
  assumes "0 < per_page"
  shows "(py_int (start ps) = Inr 0 \<longrightarrow>
            (\<exists>log. search_loop (paged_provider items per_page) u hs None ps [] [] = Some (Inr items, log)
               \<and> length log = (if items = [] then 1 else ceil_div (length items) per_page)))
       \<and> (truthy_list kws \<or> truthy_list authors \<longrightarrow>
            (\<exists>log. search_database env (paged_provider items per_page) kws date_range authors None None
                      ''scidir'' None False = Some (Inr items, log)
               \<and> length log = (if items = [] then 1 else ceil_div (length items) per_page)))"
proof -
  have loop: "\<exists>log. search_loop (paged_provider items per_page) u' hs' None ps' [] [] = Some (Inr items, log)
               \<and> length log = (if items = [] then 1 else ceil_div (length items) per_page)"
    if start0: "py_int (start ps') = Inr (int 0)" for u' hs' ps'
  proof -
    obtain reqs where
      run: "search_loop (paged_provider items per_page) u' hs' None ps' [] []
              = Some (Inr ([] @ drop 0 items), [] @ reqs)"
      and len: "length reqs = (if length items \<le> 0 then 1 else (length items - 0 + per_page - 1) div per_page)"
      using search_loop_paged [OF assms start0, of items u' hs' "[]" "[]"] by blast
    from run have "search_loop (paged_provider items per_page) u' hs' None ps' [] [] = Some (Inr items, reqs)"
      by simp
    moreover have "length reqs = (if items = [] then 1 else ceil_div (length items) per_page)"
      using len by (simp add: ceil_div_def)
    ultimately show ?thesis by blast
  qed
  let ?ps = "\<lparr>start = JInt 0, count = 50,
          field = ''prism:doi,dc:title,prism:publicationName,prism:coverDate,dc:creator'',
          date = (if truthy_str date_range then date_range else None),
          query = spec_query kws None None authors\<rparr>"
  have start0: "py_int (start ?ps) = Inr (int 0)" by simp
  have "truthy_list kws \<or> truthy_list authors \<longrightarrow>
            (\<exists>log. search_database env (paged_provider items per_page) kws date_range authors None None
                      ''scidir'' None False = Some (Inr items, log)
               \<and> length log = (if items = [] then 1 else ceil_div (length items) per_page))"
  proof
    assume given: "truthy_list kws \<or> truthy_list authors"
    show "\<exists>log. search_database env (paged_provider items per_page) kws date_range authors None None
                      ''scidir'' None False = Some (Inr items, log)
               \<and> length log = (if items = [] then 1 else ceil_div (length items) per_page)"
      using loop [OF start0] by (simp only: search_database_scidir [OF given])
  qed
  moreover from loop [of ps u hs] have "py_int (start ps) = Inr 0 \<longrightarrow>
            (\<exists>log. search_loop (paged_provider items per_page) u hs None ps [] [] = Some (Inr items, log)
               \<and> length log = (if items = [] then 1 else ceil_div (length items) per_page))"
    by simp
  ultimately show ?thesis by blast
qed

theorem search_database_pagination_witness:
  "\<exists>log. search_database Map.empty (paged_provider (sample_items 120) 50) (Some [''sleep'']) None None None None
            ''scidir'' None False = Some (Inr (sample_items 120), log)
     \<and> length log = 3 \<and> length (sample_items 120) = 120"
  using search_database_pagination [of 50 _ "sample_items 120" _ _ "Some [''sleep'']" None Map.empty None]
  by (simp add: ceil_div_def sample_items_def)

text \<open>
  C6. With a result cap \<open>m\<close> (not 0) and a first page that holds at least \<open>m\<close> entries,
  the loop stops after exactly one page fetch and has accumulated the whole first page:
  the cap is tested after the page is appended. The instance of the claim is \<open>m = 10\<close>
  with a first page of 50 entries out of 120.
\<close>

theorem search_loop_cap_after_append:
  assumes "fetch_data w u hs (Some ps) [] = (Inr page, log1)"
    and "iterate_search_info page = Some (JList es, total_n, start_n, per_page)"
    and "m \<noteq> 0" and "m \<le> int (length es)"
  shows "search_loop w u hs (Some m) ps [] [] = Some (Inr es, log1)
       \<and> log1 = [\<lparr>req_url = u, req_headers = hs, req_params = Some ps\<rparr>]"
proof -
  from assms(1) have "log1 = [\<lparr>req_url = u, req_headers = hs, req_params = Some ps\<rparr>]"
    by (simp add: fetch_data_def Let_def)
  moreover have "search_loop w u hs (Some m) ps [] [] = Some (Inr es, log1)"
    using assms by (subst search_loop.simps) (simp add: Let_def)
  ultimately show ?thesis by simp
qed

theorem search_loop_cap_after_append_witness:
  "search_database Map.empty (paged_provider (sample_items 120) 50) (Some [''sleep'']) None None None None
      ''scidir'' (Some 10) False
     = Some (Inr (sample_items 50), [first_request ''https://api.elsevier.com/content/search/sciencedirect'' ''TITLE('sleep')''])
   \<and> length (sample_items 50) = 50"
proof -
  let ?ps = "\<lparr>start = JInt 0, count = 50,
          field = ''prism:doi,dc:title,prism:publicationName,prism:coverDate,dc:creator'',
          date = None, query = ''TITLE('sleep')''\<rparr>"
  let ?u = "Url ''https://api.elsevier.com/content/search/sciencedirect''"
  let ?hs = "[(''X-ELS-APIKey'', None), (''Accept'', Some ''application/json'')]"
  have "py_int (start ?ps) = Inr (int 0)" by simp
  note step = fetch_data_paged [OF this, of "sample_items 120" 50 ?u ?hs "[]"]
    iterate_search_info_page [of "sample_items 120" 50 0]
  have "search_loop (paged_provider (sample_items 120) 50) ?u ?hs (Some 10) ?ps [] []
      = Some (Inr (take 50 (drop 0 (sample_items 120))), [] @ [\<lparr>req_url = ?u, req_headers = ?hs, req_params = Some ?ps\<rparr>])"
    using search_loop_cap_after_append [OF step, of 10] by (simp add: sample_items_def)
  then show ?thesis
    by (simp add: search_database_scidir spec_query_def spec_clauses_def given_def
        load_api_credentials_def write_headers_def first_request_def sample_items_def)
qed

section \<open>Properties of the metrics enricher\<close>

lemma access_both: "access_citation_counts (Parsed plumx_document) ''both'' = Inr [(''news'', JInt 7), (''policy'', JInt 3)]"
  by (simp add: access_citation_counts_def plumx_document_def extract_count_def py_lower_def py_strip_def lower_char_def is_space_def)

lemma fetch_sample: "fetch_data plumx_sample (Url ''https://api.elsevier.com/analytics/plumx/doi/10.1016/j.a'')
   [(''X-ELS-APIKey'', None), (''Accept'', Some ''application/json'')] None log = (Inr (Parsed plumx_document), log @ [plumx_request])"
  by (simp add: fetch_data_def plumx_sample_def declared_type_def plumx_request_def)

text \<open>
  C1 does not hold of the code. On the entries \<open>[with_doi, without_doi]\<close> the loop issues
  two requests, both for the DOI of the first entry: the entry without a DOI is not
  skipped, a lookup is made for it with the DOI left over from the turn before, and its two
  counters, set to \<open>None\<close> in the \<open>except\<close> branch, are overwritten with the counts of
  the other article. When the first entry has no DOI, reading \<open>article_doi\<close> raises
  \<open>NameError\<close> and the function returns nothing.
\<close>

theorem get_plumx_metrics_missing_doi:
  "get_plumx_metrics Map.empty plumx_sample [with_doi, without_doi] False
     = (Inr [with_doi @ [(''policy_citation_count'', JInt 3), (''news_mentions'', JInt 7)],
             without_doi @ [(''policy_citation_count'', JInt 3), (''news_mentions'', JInt 7)]],
        [plumx_request, plumx_request])
   \<and> get_plumx_metrics Map.empty plumx_sample [without_doi] False = (Inl (NameError ''article_doi''), [])"
  by (simp add: get_plumx_metrics_def load_api_credentials_def upt_rec plumx_turn_def
      with_doi_def without_doi_def write_headers_def fetch_sample access_both set_counts_def
      sort_entries_def has_counts_def sorted_reverse_def entry_sorter_def orderable_def
      key_lt_def stable_sort_def)




























end
